theory Spec2Isabelle
  imports Main
begin

section \<open>The launcher \<open>run.py\<close>\<close>

text \<open>
  The module under study is the entry point of a Flask application:
  \<^verbatim>\<open>
   5  import os
   6  from app import create_app
   7
   8  app = create_app()
   9
  10  if __name__ == '__main__':
  11      port = int(os.environ.get('PORT', 5000))
  12      debug_mode = os.environ.get('FLASK_ENV', 'production') == 'development'
  13      app.run(host='0.0.0.0', port=port, debug=debug_mode)
  \<close>
  Everything the module does is an effect on its surroundings, so the model records the
  calls it makes, in order, together with the way the module body ends. The model starts
  at line 8, after the two imports.
\<close>

subsection \<open>Python values\<close>

text \<open>
  \<open>os.environ.get('PORT', 5000)\<close> yields a \<open>str\<close> when the variable is set and the
  \<open>int\<close> default otherwise, so the argument of \<open>int\<close> is a value of either type.
\<close>

datatype py_value = PyStr string | PyInt int

text \<open>
  An exception leaving the module: the \<open>ValueError\<close> of \<open>int\<close>, or whatever the
  application factory raised.
\<close>

datatype 'e exn = ValueError | Propagated 'e

subsection \<open>The built-in \<open>int\<close> on a string\<close>

text \<open>
  A \<open>char\<close> stands for a code point below 256. Among these the white space that
  \<open>int\<close> skips is TAB, LF, VT, FF, CR, SPACE, NEL (133) and NBSP (160), and the decimal
  digits are \<open>0\<close> to \<open>9\<close>.
\<close>

definition py_isspace :: "char \<Rightarrow> bool" where
  "py_isspace c = (of_char c \<in> {9, 10, 11, 12, 13, 32, 133, 160 :: nat})"

definition is_digit :: "char \<Rightarrow> bool" where
  "is_digit c = (48 \<le> (of_char c :: nat) \<and> (of_char c :: nat) \<le> 57)"

definition digit_value :: "char \<Rightarrow> int" where
  "digit_value c = int (of_char c) - 48"

text \<open>
  The scan over digits and underscores: \<open>prev\<close> is the character read last, \<open>digits\<close>
  counts the digits, \<open>acc\<close> is the value read so far. Two underscores in a row end the
  scan with an error; any other character ends it and is left in the rest.
\<close>

fun scan :: "char \<Rightarrow> nat \<Rightarrow> int \<Rightarrow> string \<Rightarrow> (char \<times> nat \<times> int \<times> string) option" where
  "scan prev digits acc [] = Some (prev, digits, acc, [])"
| "scan prev digits acc (c # r) =
     (if c = CHR ''_'' then
        (if prev = CHR ''_'' then None else scan c digits acc r)
      else if is_digit c then scan c (digits + 1) (10 * acc + digit_value c) r
      else Some (prev, digits, acc, c # r))"

text \<open>
  \<open>int(s)\<close> in base 10: white space, an optional sign, digits with single underscores
  between them, white space. \<open>max_str_digits\<close> is the interpreter's limit on the number
  of digits (\<open>0\<close> switches it off; it is only looked at beyond 640 digits). \<open>None\<close> is
  the \<open>ValueError\<close>.
\<close>

definition int_of_str :: "nat \<Rightarrow> string \<Rightarrow> int option" where
  "int_of_str max_str_digits s =
     (let s1 = dropWhile py_isspace s;
          neg = (case s1 of [] \<Rightarrow> False | c # _ \<Rightarrow> c = CHR ''-'');
          s2 = (case s1 of [] \<Rightarrow> []
                | c # r \<Rightarrow> if c = CHR ''+'' \<or> c = CHR ''-'' then r else c # r)
      in case s2 of
           [] \<Rightarrow> None
         | c # _ \<Rightarrow>
             if c = CHR ''_'' then None
             else (case scan (CHR 0x00) 0 0 s2 of
                 None \<Rightarrow> None
               | Some (prev, digits, acc, rest) \<Rightarrow>
                   if prev = CHR ''_'' then None
                   else if digits = 0 then None
                   else if dropWhile py_isspace rest \<noteq> [] then None
                   else if 640 < digits \<and> 0 < max_str_digits \<and> max_str_digits < digits
                     then None
                   else Some (if neg then - acc else acc)))"

definition py_int :: "nat \<Rightarrow> py_value \<Rightarrow> 'e exn + int" where
  "py_int max_str_digits v =
     (case v of
        PyInt n \<Rightarrow> Inr n
      | PyStr s \<Rightarrow>
          (case int_of_str max_str_digits s of
             None \<Rightarrow> Inl ValueError
           | Some n \<Rightarrow> Inr n))"

text \<open>\<open>==\<close> on the two kinds of value: a \<open>str\<close> never equals an \<open>int\<close>.\<close>

fun py_eq :: "py_value \<Rightarrow> py_value \<Rightarrow> bool" where
  "py_eq (PyStr a) (PyStr b) = (a = b)"
| "py_eq (PyInt a) (PyInt b) = (a = b)"
| "py_eq _ _ = False"

subsection \<open>The process environment\<close>

type_synonym environ = "string \<rightharpoonup> string"

definition environ_get :: "environ \<Rightarrow> string \<Rightarrow> py_value \<Rightarrow> py_value" where
  "environ_get env key dflt = (case env key of Some v \<Rightarrow> PyStr v | None \<Rightarrow> dflt)"

subsection \<open>The module body\<close>

text \<open>
  The calls the module makes to its surroundings: the factory, a lookup in
  \<open>os.environ\<close>, and \<open>app.run\<close> with its three keyword arguments.
\<close>

datatype event = Create_app | Environ_get string | App_run string int bool

text \<open>
  How the module body ends: an exception leaves it, it finishes with \<open>app\<close> bound (the
  module was imported), or control has entered \<open>app.run(host, port, debug)\<close>.
\<close>

datatype ('e, 'app) outcome =
    Raised "'e exn"
  | Imported 'app
  | Serving 'app string int bool

text \<open>Line 11 and line 12.\<close>

definition port :: "nat \<Rightarrow> environ \<Rightarrow> 'e exn + int" where
  "port max_str_digits env = py_int max_str_digits (environ_get env ''PORT'' (PyInt 5000))"

definition debug_mode :: "environ \<Rightarrow> bool" where
  "debug_mode env =
     py_eq (environ_get env ''FLASK_ENV'' (PyStr ''production'')) (PyStr ''development'')"

text \<open>Lines 11 to 13, run with the application object of line 8.\<close>

definition main_block :: "nat \<Rightarrow> environ \<Rightarrow> 'app \<Rightarrow> event list \<times> ('e, 'app) outcome" where
  "main_block max_str_digits env app =
     (case port max_str_digits env of
        Inl e \<Rightarrow> ([Environ_get ''PORT''], Raised e)
      | Inr p \<Rightarrow>
          (let d = debug_mode env
           in ([Environ_get ''PORT'', Environ_get ''FLASK_ENV'', App_run ''0.0.0.0'' p d],
               Serving app ''0.0.0.0'' p d)))"

text \<open>
  Lines 8 to 13. The package \<open>app\<close> is not part of the source, so the result of the call
  \<open>create_app()\<close> is a parameter: the exception it raised or the object it returned.
  \<open>name\<close> is the module's \<open>__name__\<close>.
\<close>

definition run_module ::
  "nat \<Rightarrow> 'e + 'app \<Rightarrow> string \<Rightarrow> environ \<Rightarrow> event list \<times> ('e, 'app) outcome" where
  "run_module max_str_digits create_app name env =
     (case create_app of
        Inl e \<Rightarrow> ([Create_app], Raised (Propagated e))
      | Inr app \<Rightarrow>
          if name = ''__main__'' then
            (case main_block max_str_digits env app of (t, r) \<Rightarrow> (Create_app # t, r))
          else ([Create_app], Imported app))"

subsection \<open>Facts about the model\<close>

lemma port_unset_value: "env ''PORT'' = None \<Longrightarrow> port lim env = Inr 5000"
  by (simp add: port_def environ_get_def py_int_def)

lemma port_set_value:
  "env ''PORT'' = Some p \<Longrightarrow>
   port lim env = (case int_of_str lim p of None \<Rightarrow> Inl ValueError | Some n \<Rightarrow> Inr n)"
  by (simp add: port_def environ_get_def py_int_def)

lemma debug_mode_value: "debug_mode env = (env ''FLASK_ENV'' = Some ''development'')"
  by (cases "env ''FLASK_ENV''") (simp_all add: debug_mode_def environ_get_def)

lemma run_module_serving:
  "port lim env = (Inr n :: 'e exn + int) \<Longrightarrow>
   run_module lim (Inr a :: 'e + 'app) ''__main__'' env =
     ([Create_app, Environ_get ''PORT'', Environ_get ''FLASK_ENV'',
       App_run ''0.0.0.0'' n (debug_mode env)],
      Serving a ''0.0.0.0'' n (debug_mode env))"
  by (simp add: run_module_def main_block_def Let_def)

lemma run_module_port_raised:
  "port lim env = (Inl e :: 'e exn + int) \<Longrightarrow>
   run_module lim (Inr a :: 'e + 'app) ''__main__'' env
     = ([Create_app, Environ_get ''PORT''], Raised e)"
  by (simp add: run_module_def main_block_def)

lemma run_module_factory_raised:
  "run_module lim (Inl e) name env = ([Create_app], Raised (Propagated e))"
  by (simp add: run_module_def)

lemma run_module_imported:
  "name \<noteq> ''__main__'' \<Longrightarrow> run_module lim (Inr a) name env = ([Create_app], Imported a)"
  by (simp add: run_module_def)

lemma int_of_str_any_limit:
  "int_of_str lim s = Some n \<Longrightarrow> int_of_str lim' s = Some m \<Longrightarrow> n = m"
  by (auto simp: int_of_str_def Let_def split: list.splits option.splits if_splits prod.splits)

lemma port_any_limit:
  assumes "env1 ''PORT'' = env2 ''PORT''"
    and "port lim1 env1 = (Inr n1 :: 'a exn + int)" and "port lim2 env2 = (Inr n2 :: 'b exn + int)"
  shows "n1 = n2"
proof (cases "env1 ''PORT''")
  case None
  with assms show ?thesis by (simp add: port_def environ_get_def py_int_def)
next
  case (Some p)
  with assms have "int_of_str lim1 p = Some n1" "int_of_str lim2 p = Some n2"
    by (auto simp: port_def environ_get_def py_int_def split: option.splits)
  then show ?thesis by (rule int_of_str_any_limit)
qed

lemma App_run_in_trace:
  "App_run h n d \<in> set (fst (run_module lim c name env)) \<Longrightarrow>
   h = ''0.0.0.0'' \<and> port lim env = (Inr n :: 'e exn + int) \<and> d = debug_mode env"
  for c :: "'e + 'app"
  by (auto simp: run_module_def main_block_def Let_def split: sum.splits if_splits)

lemma int_of_str_8080: "int_of_str lim ''8080'' = Some 8080"
  by (simp add: int_of_str_def py_isspace_def is_digit_def digit_value_def)

lemma int_of_str_abc: "int_of_str lim ''abc'' = None"
  by (simp add: int_of_str_def py_isspace_def is_digit_def digit_value_def)

lemma int_of_str_minus_1: "int_of_str lim ''-1'' = Some (- 1)"
  by (simp add: int_of_str_def py_isspace_def is_digit_def digit_value_def)

lemma int_of_str_70000: "int_of_str lim ''70000'' = Some 70000"
  by (simp add: int_of_str_def py_isspace_def is_digit_def digit_value_def)

lemma int_of_str_two_words: "int_of_str lim ''80 80'' = None"
  by (simp add: int_of_str_def py_isspace_def is_digit_def digit_value_def)

lemma int_of_str_examples:
  "int_of_str lim '' 42 '' = Some 42"
  "int_of_str lim ''+7'' = Some 7"
  "int_of_str lim ''007'' = Some 7"
  "int_of_str lim ''1_000'' = Some 1000"
  "int_of_str lim ''1__000'' = None"
  "int_of_str lim ''_1'' = None"
  "int_of_str lim ''1_'' = None"
  "int_of_str lim ''- 1'' = None"
  "int_of_str lim ''5000.0'' = None"
  "int_of_str lim ''0x10'' = None"
  "int_of_str lim [] = None"
  "int_of_str lim ''+'' = None"
  by (simp_all add: int_of_str_def py_isspace_def is_digit_def digit_value_def)

text \<open>
  Two rejections of \<open>int\<close> that can be read off the string: a character that
  belongs to no integer literal, and the absence of any digit.
\<close>

lemma scan_consumes:
  "scan prev d acc s = Some (prev', d', acc', rest) \<Longrightarrow> c \<in> set s \<Longrightarrow>
   c \<in> set rest \<or> is_digit c \<or> c = CHR ''_''"
  by (induction s arbitrary: prev d acc) (auto split: if_splits)

lemma scan_no_digit:
  "scan prev d acc s = Some (prev', d', acc', rest) \<Longrightarrow> \<forall>c\<in>set s. \<not> is_digit c \<Longrightarrow> d' = d"
  by (induction s arbitrary: prev d acc) (auto split: if_splits)

lemma dropWhile_keeps: "c \<in> set xs \<Longrightarrow> \<not> P c \<Longrightarrow> c \<in> set (dropWhile P xs)"
  by (induction xs) auto

lemma sign_dropped_subset:
  "set (case s of [] \<Rightarrow> [] | c # r \<Rightarrow> if c = a \<or> c = b then r else c # r) \<subseteq> set s"
  by (cases s) auto

lemma sign_dropped_keeps:
  "x \<in> set s \<Longrightarrow> x \<noteq> a \<Longrightarrow> x \<noteq> b \<Longrightarrow>
   x \<in> set (case s of [] \<Rightarrow> [] | c # r \<Rightarrow> if c = a \<or> c = b then r else c # r)"
  by (cases s) auto

lemma guarded_None:
  "X = None \<Longrightarrow> (case xs of [] \<Rightarrow> None | c # _ \<Rightarrow> if c = k then None else X) = None"
  by (simp split: list.split)

lemma int_of_str_by_scan:
  assumes "s2 = (case dropWhile py_isspace p of [] \<Rightarrow> []
                | c # r \<Rightarrow> if c = CHR ''+'' \<or> c = CHR ''-'' then r else c # r)"
    and "\<And>prev digits acc rest. scan (CHR 0x00) 0 0 s2 = Some (prev, digits, acc, rest) \<Longrightarrow>
           digits = 0 \<or> dropWhile py_isspace rest \<noteq> []"
  shows "int_of_str lim p = None"
  unfolding int_of_str_def Let_def assms(1) [symmetric]
proof (rule guarded_None, cases "scan (CHR 0x00) 0 0 s2")
  case None
  then show "(case scan (CHR 0x00) 0 0 s2 of None \<Rightarrow> None
      | Some (prev, digits, acc, rest) \<Rightarrow>
          if prev = CHR ''_'' then None
          else if digits = 0 then None
          else if dropWhile py_isspace rest \<noteq> [] then None
          else if 640 < digits \<and> 0 < lim \<and> lim < digits then None
          else Some (if case dropWhile py_isspace p of [] \<Rightarrow> False | c # x \<Rightarrow> c = CHR ''-''
                     then - acc else acc)) = None"
    by simp
next
  case (Some r)
  obtain prev digits acc rest where r: "r = (prev, digits, acc, rest)"
    by (cases r) auto
  from assms(2) Some r have "digits = 0 \<or> dropWhile py_isspace rest \<noteq> []"
    by simp
  with Some r show "(case scan (CHR 0x00) 0 0 s2 of None \<Rightarrow> None
      | Some (prev, digits, acc, rest) \<Rightarrow>
          if prev = CHR ''_'' then None
          else if digits = 0 then None
          else if dropWhile py_isspace rest \<noteq> [] then None
          else if 640 < digits \<and> 0 < lim \<and> lim < digits then None
          else Some (if case dropWhile py_isspace p of [] \<Rightarrow> False | c # x \<Rightarrow> c = CHR ''-''
                     then - acc else acc)) = None"
    by auto
qed

lemma int_of_str_foreign_char:
  assumes "c \<in> set p" and "\<not> is_digit c" and "c \<noteq> CHR ''+''" and "c \<noteq> CHR ''-''"
    and "c \<noteq> CHR ''_''" and "\<not> py_isspace c"
  shows "int_of_str lim p = None"
proof (rule int_of_str_by_scan [OF refl])
  let ?s1 = "dropWhile py_isspace p"
  let ?s2 = "case ?s1 of [] \<Rightarrow> []
                | c # r \<Rightarrow> if c = CHR ''+'' \<or> c = CHR ''-'' then r else c # r"
  fix prev digits acc rest
  assume scanned: "scan (CHR 0x00) 0 0 ?s2 = Some (prev, digits, acc, rest)"
  from assms(1,6) have "c \<in> set ?s1"
    by (rule dropWhile_keeps)
  then have "c \<in> set ?s2"
    using assms(3,4) by (rule sign_dropped_keeps)
  with scanned assms(2,5) have "c \<in> set rest"
    by (blast dest: scan_consumes)
  then have "c \<in> set (dropWhile py_isspace rest)"
    using assms(6) by (rule dropWhile_keeps)
  then have "dropWhile py_isspace rest \<noteq> []"
    by (cases "dropWhile py_isspace rest") simp_all
  then show "digits = 0 \<or> dropWhile py_isspace rest \<noteq> []" ..
qed

lemma int_of_str_no_digit:
  assumes "\<not> (\<exists>c\<in>set p. is_digit c)"
  shows "int_of_str lim p = None"
proof (rule int_of_str_by_scan [OF refl])
  let ?s1 = "dropWhile py_isspace p"
  let ?s2 = "case ?s1 of [] \<Rightarrow> []
                | c # r \<Rightarrow> if c = CHR ''+'' \<or> c = CHR ''-'' then r else c # r"
  fix prev digits acc rest
  assume scanned: "scan (CHR 0x00) 0 0 ?s2 = Some (prev, digits, acc, rest)"
  have "set ?s1 \<subseteq> set p"
    by (auto dest: set_dropWhileD)
  moreover have "set ?s2 \<subseteq> set ?s1"
    by (rule sign_dropped_subset)
  ultimately have "\<forall>c\<in>set ?s2. \<not> is_digit c"
    using assms by blast
  with scanned have "digits = 0"
    by (rule scan_no_digit)
  then show "digits = 0 \<or> dropWhile py_isspace rest \<noteq> []" ..
qed

lemma port_cong: "env1 ''PORT'' = env2 ''PORT'' \<Longrightarrow> port lim env1 = port lim env2"
  by (simp add: port_def environ_get_def)

lemma debug_mode_cong:
  "env1 ''FLASK_ENV'' = env2 ''FLASK_ENV'' \<Longrightarrow> debug_mode env1 = debug_mode env2"
  by (simp add: debug_mode_value)

section \<open>The claims\<close>

text \<open>
  In what follows a run of the module as the main program is
  \<open>run_module lim create_app ''__main__'' env\<close>: its first component is the list of
  calls made, its second the way the module body ended.
\<close>

text \<open>
  C1, as stated: with a non-numeric \<open>PORT\<close> the main program fails during startup with
  a reported configuration error and never attempts to bind. With \<open>PORT=abc\<close> the module
  makes two calls, the factory and the lookup of \<open>PORT\<close>, and then the \<open>ValueError\<close>
  that \<open>int\<close> raised on line 11 leaves the module as it is: nothing catches it, and the
  module raises no error of its own and makes no call that reports one.
\<close>

theorem reported_configuration_error_counterexample:
  "py_int 4300 (PyStr ''abc'') = (Inl ValueError :: unit exn + int)
   \<and> run_module 4300 (Inr () :: unit + unit) ''__main__'' [''PORT'' \<mapsto> ''abc'']
       = ([Create_app, Environ_get ''PORT''], Raised ValueError)"
proof -
  have "port 4300 [''PORT'' \<mapsto> ''abc''] = (Inl ValueError :: unit exn + int)"
    by (simp add: port_set_value int_of_str_abc)
  then show ?thesis
    by (simp add: run_module_port_raised py_int_def int_of_str_abc)
qed

text \<open>
  C1, amended. When \<open>PORT\<close> is set to a string that \<open>int\<close> rejects, the main program
  fails during startup with the \<open>ValueError\<close> of the conversion on line 11, which leaves
  the module uncaught, and never calls \<open>app.run\<close>. The strings \<open>int\<close> rejects include
  every string with a character other than a decimal digit, \<open>+\<close>, \<open>-\<close>, \<open>_\<close> and
  white space, and every string without a digit. Whatever the factory did, the module
  body ends with an exception and no \<open>app.run\<close> call is among the calls made.
\<close>

theorem unparsable_port_raises_ValueError:
  fixes create_app :: "'e + 'app"
  assumes "env ''PORT'' = Some p"
    and "(\<exists>c\<in>set p. \<not> is_digit c \<and> c \<noteq> CHR ''+'' \<and> c \<noteq> CHR ''-'' \<and> c \<noteq> CHR ''_''
            \<and> \<not> py_isspace c)
         \<or> \<not> (\<exists>c\<in>set p. is_digit c)
         \<or> int_of_str lim p = None"
  shows "port lim env = (Inl ValueError :: 'e exn + int)
       \<and> (\<exists>e. snd (run_module lim create_app ''__main__'' env) = Raised e)
       \<and> (\<forall>a. create_app = Inr a \<longrightarrow>
            run_module lim create_app ''__main__'' env
              = ([Create_app, Environ_get ''PORT''], Raised ValueError))
       \<and> (\<forall>h n d. App_run h n d \<notin> set (fst (run_module lim create_app ''__main__'' env)))"
proof -
  from assms(2) have "int_of_str lim p = None"
    by (blast intro: int_of_str_foreign_char int_of_str_no_digit)
  with assms(1) have bad: "port lim env = (Inl ValueError :: 'e exn + int)"
    by (simp add: port_set_value)
  show ?thesis
  proof (cases create_app)
    case (Inl e)
    with bad show ?thesis by (simp add: run_module_factory_raised)
  next
    case (Inr a)
    with bad show ?thesis by (simp add: run_module_port_raised)
  qed
qed

theorem unparsable_port_raises_ValueError_witness:
  "(\<exists>c\<in>set ''abc''. \<not> is_digit c \<and> c \<noteq> CHR ''+'' \<and> c \<noteq> CHR ''-'' \<and> c \<noteq> CHR ''_''
       \<and> \<not> py_isspace c)
   \<and> run_module 4300 (Inr () :: unit + unit) ''__main__'' [''PORT'' \<mapsto> ''abc'']
       = ([Create_app, Environ_get ''PORT''], Raised ValueError)
   \<and> App_run ''0.0.0.0'' 5000 False
       \<notin> set (fst (run_module 4300 (Inr () :: unit + unit) ''__main__'' [''PORT'' \<mapsto> ''abc'']))
   \<and> \<not> (\<exists>c\<in>set ''+''. is_digit c)
   \<and> run_module 4300 (Inr () :: unit + unit) ''__main__'' [''PORT'' \<mapsto> ''+'']
       = ([Create_app, Environ_get ''PORT''], Raised ValueError)
   \<and> int_of_str 4300 ''1__000'' = None
   \<and> run_module 4300 (Inr () :: unit + unit) ''__main__'' [''PORT'' \<mapsto> ''1__000'']
       = ([Create_app, Environ_get ''PORT''], Raised ValueError)"
proof -
  have set1: "[''PORT'' \<mapsto> ''abc''] ''PORT'' = Some ''abc''"
    by simp
  have foreign: "\<exists>c\<in>set ''abc''. \<not> is_digit c \<and> c \<noteq> CHR ''+'' \<and> c \<noteq> CHR ''-''
      \<and> c \<noteq> CHR ''_'' \<and> \<not> py_isspace c"
    by (simp add: is_digit_def py_isspace_def)
  from unparsable_port_raises_ValueError [of "[''PORT'' \<mapsto> ''abc'']" "''abc''" 4300
      "Inr () :: unit + unit", OF set1 disjI1, OF foreign]
  have run1: "run_module 4300 (Inr () :: unit + unit) ''__main__'' [''PORT'' \<mapsto> ''abc'']
          = ([Create_app, Environ_get ''PORT''], Raised ValueError)"
    and no_call: "App_run ''0.0.0.0'' 5000 False
          \<notin> set (fst (run_module 4300 (Inr () :: unit + unit) ''__main__'' [''PORT'' \<mapsto> ''abc'']))"
    by blast+
  have set2: "[''PORT'' \<mapsto> ''+''] ''PORT'' = Some ''+''"
    by simp
  have no_digit: "\<not> (\<exists>c\<in>set ''+''. is_digit c)"
    by (simp add: is_digit_def)
  from unparsable_port_raises_ValueError [of "[''PORT'' \<mapsto> ''+'']" "''+''" 4300
      "Inr () :: unit + unit", OF set2 disjI2, OF disjI1, OF no_digit]
  have run2: "run_module 4300 (Inr () :: unit + unit) ''__main__'' [''PORT'' \<mapsto> ''+'']
          = ([Create_app, Environ_get ''PORT''], Raised ValueError)"
    by blast
  have set3: "[''PORT'' \<mapsto> ''1__000''] ''PORT'' = Some ''1__000''"
    by simp
  have rejected: "int_of_str 4300 ''1__000'' = None"
    by (rule int_of_str_examples)
  from unparsable_port_raises_ValueError [of "[''PORT'' \<mapsto> ''1__000'']" "''1__000''" 4300
      "Inr () :: unit + unit", OF set3 disjI2, OF disjI2, OF rejected]
  have run3: "run_module 4300 (Inr () :: unit + unit) ''__main__'' [''PORT'' \<mapsto> ''1__000'']
          = ([Create_app, Environ_get ''PORT''], Raised ValueError)"
    by blast
  from foreign run1 no_call no_digit run2 rejected run3 show ?thesis
    by blast
qed

text \<open>
  C2, as stated: the main program first reads the environment, then builds the
  application, then starts listening, and nothing precedes the environment read. In the
  empty environment the calls made are the factory, the two lookups and \<open>app.run\<close>, in
  this order: the first call is not a lookup in the environment.
\<close>

theorem environment_read_first_counterexample:
  "fst (run_module 4300 (Inr () :: unit + unit) ''__main__'' Map.empty)
     = [Create_app, Environ_get ''PORT'', Environ_get ''FLASK_ENV'',
        App_run ''0.0.0.0'' 5000 False]
   \<and> \<not> (\<exists>key t. fst (run_module 4300 (Inr () :: unit + unit) ''__main__'' Map.empty)
              = Environ_get key # t)"
  by (simp add: run_module_serving port_unset_value debug_mode_value)

text \<open>
  C2, amended. When the factory returns and the port resolves, the main program makes
  exactly these calls in this order: the factory (line 8), the lookup of \<open>PORT\<close>
  (line 11), the lookup of \<open>FLASK_ENV\<close> (line 12), \<open>app.run\<close> (line 13). In every
  run, as main program or not, the factory call comes first.
\<close>

theorem factory_then_environment_then_serve:
  fixes create_app :: "'e + 'app" and create_app' :: "'e' + 'app'"
  assumes "create_app = Inr a" and "port lim env = (Inr n :: 'e exn + int)"
  shows "fst (run_module lim create_app ''__main__'' env)
           = [Create_app, Environ_get ''PORT'', Environ_get ''FLASK_ENV'',
              App_run ''0.0.0.0'' n (debug_mode env)]
       \<and> (\<exists>t. fst (run_module lim' create_app' name' env') = Create_app # t)"
proof
  from assms show "fst (run_module lim create_app ''__main__'' env)
           = [Create_app, Environ_get ''PORT'', Environ_get ''FLASK_ENV'',
              App_run ''0.0.0.0'' n (debug_mode env)]"
    by (simp add: run_module_serving)
  show "\<exists>t. fst (run_module lim' create_app' name' env') = Create_app # t"
    by (cases create_app') (auto simp: run_module_def split: prod.splits)
qed

theorem factory_then_environment_then_serve_witness:
  "port 4300 [''PORT'' \<mapsto> ''8080''] = (Inr 8080 :: unit exn + int)
   \<and> fst (run_module 4300 (Inr () :: unit + unit) ''__main__'' [''PORT'' \<mapsto> ''8080''])
       = [Create_app, Environ_get ''PORT'', Environ_get ''FLASK_ENV'',
          App_run ''0.0.0.0'' 8080 False]"
proof -
  have resolved: "port 4300 [''PORT'' \<mapsto> ''8080''] = (Inr 8080 :: unit exn + int)"
    by (simp add: port_set_value int_of_str_8080)
  have dbg: "debug_mode [''PORT'' \<mapsto> ''8080''] = False"
    by (simp add: debug_mode_value)
  from factory_then_environment_then_serve [of "Inr () :: unit + unit" "()" 4300
      "[''PORT'' \<mapsto> ''8080'']" 8080 4300 "Inr () :: unit + unit" "''__main__''" Map.empty,
      OF refl resolved]
  have "fst (run_module 4300 (Inr () :: unit + unit) ''__main__'' [''PORT'' \<mapsto> ''8080''])
       = [Create_app, Environ_get ''PORT'', Environ_get ''FLASK_ENV'',
          App_run ''0.0.0.0'' 8080 False]"
    unfolding dbg by (rule conjunct1)
  with resolved show ?thesis by blast
qed

text \<open>
  C3. The debug flag is true exactly when \<open>FLASK_ENV\<close> is set and its value is the
  string \<open>development\<close>; unset, or set to anything else, it is false. The flag of
  every \<open>app.run\<close> call the module makes is this value.
\<close>

theorem debug_mode_iff_development:
  fixes create_app :: "'e + 'app"
  shows "debug_mode env = (env ''FLASK_ENV'' = Some ''development'')
       \<and> (\<forall>h n d. App_run h n d \<in> set (fst (run_module lim create_app name env))
             \<longrightarrow> d = (env ''FLASK_ENV'' = Some ''development''))"
proof (intro conjI allI impI)
  show flag: "debug_mode env = (env ''FLASK_ENV'' = Some ''development'')"
    by (cases "env ''FLASK_ENV''") (simp_all add: debug_mode_def environ_get_def)
  fix h n d
  assume "App_run h n d \<in> set (fst (run_module lim create_app name env))"
  then have "d = debug_mode env"
    by (auto simp: run_module_def main_block_def Let_def split: sum.splits if_splits)
  with flag show "d = (env ''FLASK_ENV'' = Some ''development'')"
    by simp
qed

theorem debug_mode_iff_development_witness:
  "debug_mode [''FLASK_ENV'' \<mapsto> ''development'']
   \<and> \<not> debug_mode [''FLASK_ENV'' \<mapsto> ''Development'']
   \<and> \<not> debug_mode [''FLASK_ENV'' \<mapsto> ''production'']
   \<and> \<not> debug_mode [''FLASK_ENV'' \<mapsto> ''development '']
   \<and> \<not> debug_mode Map.empty
   \<and> App_run ''0.0.0.0'' 5000 True
       \<in> set (fst (run_module 4300 (Inr () :: unit + unit) ''__main__''
                    [''FLASK_ENV'' \<mapsto> ''development'']))
   \<and> App_run ''0.0.0.0'' 5000 False
       \<notin> set (fst (run_module 4300 (Inr () :: unit + unit) ''__main__''
                    [''FLASK_ENV'' \<mapsto> ''development'']))"
proof -
  note flag = debug_mode_iff_development [where 'e = unit and 'app = unit, THEN conjunct1]
  have flags: "debug_mode [''FLASK_ENV'' \<mapsto> ''development'']
     \<and> \<not> debug_mode [''FLASK_ENV'' \<mapsto> ''Development'']
     \<and> \<not> debug_mode [''FLASK_ENV'' \<mapsto> ''production'']
     \<and> \<not> debug_mode [''FLASK_ENV'' \<mapsto> ''development '']
     \<and> \<not> debug_mode Map.empty"
    unfolding flag by simp
  have called: "App_run ''0.0.0.0'' 5000 True
       \<in> set (fst (run_module 4300 (Inr () :: unit + unit) ''__main__''
                    [''FLASK_ENV'' \<mapsto> ''development'']))"
    by (simp add: run_module_serving port_unset_value debug_mode_value)
  from debug_mode_iff_development [of "[''FLASK_ENV'' \<mapsto> ''development'']" 4300
      "Inr () :: unit + unit" "''__main__''", THEN conjunct2]
  have "App_run ''0.0.0.0'' 5000 False
       \<notin> set (fst (run_module 4300 (Inr () :: unit + unit) ''__main__''
                    [''FLASK_ENV'' \<mapsto> ''development'']))"
    by fastforce
  with flags called show ?thesis by blast
qed

text \<open>
  C4. When \<open>PORT\<close> is set to a string \<open>p\<close> that \<open>int\<close> accepts and the factory
  returns, the main program calls \<open>app.run\<close> once, with the port \<open>int(p)\<close>, and no
  \<open>app.run\<close> call with another port is made.
\<close>

theorem parsed_port_is_bound:
  fixes create_app :: "'e + 'app"
  assumes "env ''PORT'' = Some p" and "int_of_str lim p = Some n" and "create_app = Inr a"
  shows "run_module lim create_app ''__main__'' env
           = ([Create_app, Environ_get ''PORT'', Environ_get ''FLASK_ENV'',
               App_run ''0.0.0.0'' n (debug_mode env)],
              Serving a ''0.0.0.0'' n (debug_mode env))
       \<and> (\<forall>h m d. App_run h m d \<in> set (fst (run_module lim create_app ''__main__'' env))
             \<longrightarrow> m = n)"
proof -
  from assms(1,2) have "port lim env = (Inr n :: 'e exn + int)"
    by (simp add: port_set_value)
  with assms(3) show ?thesis by (simp add: run_module_serving)
qed

theorem parsed_port_is_bound_witness:
  "[''PORT'' \<mapsto> ''8080''] ''PORT'' = Some ''8080'' \<and> int_of_str 4300 ''8080'' = Some 8080
   \<and> run_module 4300 (Inr () :: unit + unit) ''__main__'' [''PORT'' \<mapsto> ''8080'']
       = ([Create_app, Environ_get ''PORT'', Environ_get ''FLASK_ENV'',
           App_run ''0.0.0.0'' 8080 False],
          Serving () ''0.0.0.0'' 8080 False)"
proof -
  have set: "[''PORT'' \<mapsto> ''8080''] ''PORT'' = Some ''8080''"
    by simp
  have parsed: "int_of_str 4300 ''8080'' = Some 8080"
    by (rule int_of_str_8080)
  have dbg: "debug_mode [''PORT'' \<mapsto> ''8080''] = False"
    by (simp add: debug_mode_value)
  from parsed_port_is_bound [of "[''PORT'' \<mapsto> ''8080'']" "''8080''" 4300 8080
      "Inr () :: unit + unit" "()", OF set parsed refl]
  have "run_module 4300 (Inr () :: unit + unit) ''__main__'' [''PORT'' \<mapsto> ''8080'']
       = ([Create_app, Environ_get ''PORT'', Environ_get ''FLASK_ENV'',
           App_run ''0.0.0.0'' 8080 False],
          Serving () ''0.0.0.0'' 8080 False)"
    unfolding dbg by (rule conjunct1)
  with set parsed show ?thesis by blast
qed

text \<open>
  C5. When \<open>PORT\<close> is unset the resolved port is 5000: line 11 yields 5000, and that
  is the port of the \<open>app.run\<close> call once the factory has returned.
\<close>

theorem port_default_5000:
  assumes "env ''PORT'' = None"
  shows "port lim env = (Inr 5000 :: 'e exn + int)
       \<and> run_module lim (Inr a :: 'e + 'app) ''__main__'' env
           = ([Create_app, Environ_get ''PORT'', Environ_get ''FLASK_ENV'',
               App_run ''0.0.0.0'' 5000 (debug_mode env)],
              Serving a ''0.0.0.0'' 5000 (debug_mode env))"
proof -
  from assms have "port lim env = (Inr 5000 :: 'e exn + int)"
    by (rule port_unset_value)
  then show ?thesis by (simp add: run_module_serving)
qed

theorem port_default_5000_witness:
  "[''FLASK_ENV'' \<mapsto> ''development''] ''PORT'' = None
   \<and> port 4300 [''FLASK_ENV'' \<mapsto> ''development''] = (Inr 5000 :: unit exn + int)
   \<and> run_module 4300 (Inr () :: unit + unit) ''__main__'' [''FLASK_ENV'' \<mapsto> ''development'']
       = ([Create_app, Environ_get ''PORT'', Environ_get ''FLASK_ENV'',
           App_run ''0.0.0.0'' 5000 True],
          Serving () ''0.0.0.0'' 5000 True)"
proof -
  have unset: "[''FLASK_ENV'' \<mapsto> ''development''] ''PORT'' = None"
    by simp
  have dbg: "debug_mode [''FLASK_ENV'' \<mapsto> ''development''] = True"
    by (simp add: debug_mode_value)
  from port_default_5000 [of "[''FLASK_ENV'' \<mapsto> ''development'']" 4300 "()",
      where 'e = unit, OF unset] unset
  show ?thesis unfolding dbg by blast
qed

text \<open>
  C6. The host of the listener is the constant \<open>0.0.0.0\<close>: every \<open>app.run\<close> call the
  module makes, in any environment, has this host, and it is the host of the call the main
  program makes once the factory has returned and the port has resolved.
\<close>

theorem host_is_all_interfaces:
  fixes create_app :: "'e + 'app"
  shows "(\<forall>h n d. App_run h n d \<in> set (fst (run_module lim create_app name env))
            \<longrightarrow> h = ''0.0.0.0'')
       \<and> (\<forall>a m. create_app = Inr a \<and> port lim env = (Inr m :: 'e exn + int)
            \<longrightarrow> snd (run_module lim create_app ''__main__'' env)
                  = Serving a ''0.0.0.0'' m (debug_mode env))"
proof (intro conjI allI impI)
  fix h n d
  assume "App_run h n d \<in> set (fst (run_module lim create_app name env))"
  then show "h = ''0.0.0.0''"
    by (auto simp: run_module_def main_block_def Let_def split: sum.splits if_splits)
next
  fix a m
  assume "create_app = Inr a \<and> port lim env = (Inr m :: 'e exn + int)"
  then show "snd (run_module lim create_app ''__main__'' env)
               = Serving a ''0.0.0.0'' m (debug_mode env)"
    by (simp add: run_module_serving)
qed

theorem host_is_all_interfaces_witness:
  "snd (run_module 4300 (Inr () :: unit + unit) ''__main__''
          [''HOST'' \<mapsto> ''127.0.0.1'', ''PORT'' \<mapsto> ''8080''])
     = Serving () ''0.0.0.0'' 8080 False
   \<and> App_run ''0.0.0.0'' 8080 False
       \<in> set (fst (run_module 4300 (Inr () :: unit + unit) ''__main__''
                    [''HOST'' \<mapsto> ''127.0.0.1'', ''PORT'' \<mapsto> ''8080'']))
   \<and> App_run ''127.0.0.1'' 8080 False
       \<notin> set (fst (run_module 4300 (Inr () :: unit + unit) ''__main__''
                    [''HOST'' \<mapsto> ''127.0.0.1'', ''PORT'' \<mapsto> ''8080'']))"
proof -
  let ?env = "[''HOST'' \<mapsto> ''127.0.0.1'', ''PORT'' \<mapsto> ''8080'']"
  note host = host_is_all_interfaces [of 4300 "Inr () :: unit + unit" "''__main__''" ?env]
  have resolved: "port 4300 ?env = (Inr 8080 :: unit exn + int)"
    by (simp add: port_set_value int_of_str_8080)
  have dbg: "debug_mode ?env = False"
    by (simp add: debug_mode_value)
  from host resolved
  have serving: "snd (run_module 4300 (Inr () :: unit + unit) ''__main__'' ?env)
     = Serving () ''0.0.0.0'' 8080 False"
    unfolding dbg by blast
  have called: "App_run ''0.0.0.0'' 8080 False
     \<in> set (fst (run_module 4300 (Inr () :: unit + unit) ''__main__'' ?env))"
    using resolved dbg by (simp add: run_module_serving)
  from host have "App_run ''127.0.0.1'' 8080 False
     \<notin> set (fst (run_module 4300 (Inr () :: unit + unit) ''__main__'' ?env))"
    by fastforce
  with serving called show ?thesis by blast
qed

text \<open>
  C7. When the module is imported (its \<open>__name__\<close> is not \<open>__main__\<close>) the only call
  it makes is the factory call: no lookup in the environment, no \<open>app.run\<close>. The
  module body ends with \<open>app\<close> bound to the object the factory returned, or with the
  exception the factory raised.
\<close>

theorem import_builds_app_only:
  fixes create_app :: "'e + 'app"
  assumes "name \<noteq> ''__main__''"
  shows "fst (run_module lim create_app name env) = [Create_app]
       \<and> snd (run_module lim create_app name env)
           = (case create_app of Inl e \<Rightarrow> Raised (Propagated e) | Inr a \<Rightarrow> Imported a)"
proof (cases create_app)
  case (Inl e)
  then show ?thesis by (simp add: run_module_factory_raised)
next
  case (Inr a)
  with assms show ?thesis by (simp add: run_module_imported)
qed

theorem import_builds_app_only_witness:
  "''run'' \<noteq> ''__main__''
   \<and> run_module 4300 (Inr () :: unit + unit) ''run''
        [''PORT'' \<mapsto> ''abc'', ''FLASK_ENV'' \<mapsto> ''development'']
       = ([Create_app], Imported ())"
proof -
  have imported: "''run'' \<noteq> ''__main__''"
    by simp
  from import_builds_app_only [of "''run''" 4300 "Inr () :: unit + unit"
      "[''PORT'' \<mapsto> ''abc'', ''FLASK_ENV'' \<mapsto> ''development'']", OF imported]
  have "run_module 4300 (Inr () :: unit + unit) ''run''
        [''PORT'' \<mapsto> ''abc'', ''FLASK_ENV'' \<mapsto> ''development'']
       = ([Create_app], Imported ())"
    by (simp add: prod_eq_iff)
  with imported show ?thesis by blast
qed

text \<open>
  C8. With \<open>PORT=8080\<close> and \<open>FLASK_ENV=development\<close> the main program calls
  \<open>app.run\<close> with host \<open>0.0.0.0\<close>, port 8080 and debug on; in the empty environment
  it calls \<open>app.run\<close> with host \<open>0.0.0.0\<close>, port 5000 and debug off. Both hold for
  any application object the factory returns and any digit limit of the interpreter.
\<close>

theorem two_scenarios:
  "run_module lim (Inr a :: 'e + 'app) ''__main__''
       [''PORT'' \<mapsto> ''8080'', ''FLASK_ENV'' \<mapsto> ''development'']
     = ([Create_app, Environ_get ''PORT'', Environ_get ''FLASK_ENV'',
         App_run ''0.0.0.0'' 8080 True],
        Serving a ''0.0.0.0'' 8080 True)
   \<and> run_module lim (Inr a :: 'e + 'app) ''__main__'' Map.empty
     = ([Create_app, Environ_get ''PORT'', Environ_get ''FLASK_ENV'',
         App_run ''0.0.0.0'' 5000 False],
        Serving a ''0.0.0.0'' 5000 False)"
proof
  let ?env = "[''PORT'' \<mapsto> ''8080'', ''FLASK_ENV'' \<mapsto> ''development'']"
  have "port lim ?env = (Inr 8080 :: 'e exn + int)"
    by (simp add: port_set_value int_of_str_8080)
  moreover have "debug_mode ?env"
    by (simp add: debug_mode_value)
  ultimately show "run_module lim (Inr a :: 'e + 'app) ''__main__'' ?env
     = ([Create_app, Environ_get ''PORT'', Environ_get ''FLASK_ENV'',
         App_run ''0.0.0.0'' 8080 True],
        Serving a ''0.0.0.0'' 8080 True)"
    by (simp add: run_module_serving)
next
  have "port lim Map.empty = (Inr 5000 :: 'e exn + int)"
    by (simp add: port_unset_value)
  moreover have "\<not> debug_mode Map.empty"
    by (simp add: debug_mode_value)
  ultimately show "run_module lim (Inr a :: 'e + 'app) ''__main__'' Map.empty
     = ([Create_app, Environ_get ''PORT'', Environ_get ''FLASK_ENV'',
         App_run ''0.0.0.0'' 5000 False],
        Serving a ''0.0.0.0'' 5000 False)"
    by (simp add: run_module_serving)
qed

text \<open>
  C9. The configuration depends on \<open>PORT\<close> and \<open>FLASK_ENV\<close> only. Two
  environments that agree on these two variables (both unset, or both set to the same
  value) give the same run: the same calls with the same arguments and the same end.
  Moreover any two \<open>app.run\<close> calls made under such environments carry the same host,
  port and debug flag, even when the two runs differ in the object the factory
  returned, in the module name or in the interpreter's digit limit.
\<close>

theorem configuration_depends_on_two_variables:
  fixes create_app :: "'e + 'app" and c1 :: "'e1 + 'app1" and c2 :: "'e2 + 'app2"
  assumes "env1 ''PORT'' = env2 ''PORT''" and "env1 ''FLASK_ENV'' = env2 ''FLASK_ENV''"
  shows "run_module lim create_app name env1 = run_module lim create_app name env2
       \<and> (\<forall>h1 n1 d1 h2 n2 d2.
             App_run h1 n1 d1 \<in> set (fst (run_module lim1 c1 name1 env1))
           \<and> App_run h2 n2 d2 \<in> set (fst (run_module lim2 c2 name2 env2))
           \<longrightarrow> h1 = h2 \<and> n1 = n2 \<and> d1 = d2)"
proof (rule conjI)
  have "port lim env1 = (port lim env2 :: 'e exn + int)"
    using assms(1) by (rule port_cong)
  moreover have "debug_mode env1 = debug_mode env2"
    using assms(2) by (rule debug_mode_cong)
  ultimately have "main_block lim env1 app
      = (main_block lim env2 app :: event list \<times> ('e, 'app) outcome)" for app
    by (simp add: main_block_def split: sum.splits)
  then show "run_module lim create_app name env1 = run_module lim create_app name env2"
    by (cases create_app) (simp_all add: run_module_def)
next
  have "h1 = h2 \<and> n1 = n2 \<and> d1 = d2"
    if first: "App_run h1 n1 d1 \<in> set (fst (run_module lim1 c1 name1 env1))"
    and second: "App_run h2 n2 d2 \<in> set (fst (run_module lim2 c2 name2 env2))"
    for h1 n1 d1 h2 n2 d2
  proof -
    from first have call1: "h1 = ''0.0.0.0''" "port lim1 env1 = (Inr n1 :: 'e1 exn + int)"
      "d1 = debug_mode env1"
      by (auto dest: App_run_in_trace)
    from second have call2: "h2 = ''0.0.0.0''" "port lim2 env2 = (Inr n2 :: 'e2 exn + int)"
      "d2 = debug_mode env2"
      by (auto dest: App_run_in_trace)
    from assms(1) call1(2) call2(2) have "n1 = n2"
      by (rule port_any_limit)
    moreover from assms(2) have "debug_mode env1 = debug_mode env2"
      by (rule debug_mode_cong)
    ultimately show ?thesis
      using call1 call2 by simp
  qed
  then show "\<forall>h1 n1 d1 h2 n2 d2.
             App_run h1 n1 d1 \<in> set (fst (run_module lim1 c1 name1 env1))
           \<and> App_run h2 n2 d2 \<in> set (fst (run_module lim2 c2 name2 env2))
           \<longrightarrow> h1 = h2 \<and> n1 = n2 \<and> d1 = d2"
    by blast
qed

theorem configuration_depends_on_two_variables_witness:
  "[''HOME'' \<mapsto> ''/root'', ''PORT'' \<mapsto> ''8080''] ''PORT'' = [''PORT'' \<mapsto> ''8080''] ''PORT''
   \<and> [''HOME'' \<mapsto> ''/root'', ''PORT'' \<mapsto> ''8080''] ''FLASK_ENV''
       = [''PORT'' \<mapsto> ''8080''] ''FLASK_ENV''
   \<and> [''HOME'' \<mapsto> ''/root'', ''PORT'' \<mapsto> ''8080''] ''HOME'' \<noteq> [''PORT'' \<mapsto> ''8080''] ''HOME''
   \<and> run_module 4300 (Inr () :: unit + unit) ''__main__''
        [''HOME'' \<mapsto> ''/root'', ''PORT'' \<mapsto> ''8080'']
       = run_module 4300 (Inr () :: unit + unit) ''__main__'' [''PORT'' \<mapsto> ''8080'']
   \<and> snd (run_module 4300 (Inr () :: unit + unit) ''__main__'' [''PORT'' \<mapsto> ''8080''])
       = Serving () ''0.0.0.0'' 8080 False"
proof -
  let ?env1 = "[''HOME'' \<mapsto> ''/root'', ''PORT'' \<mapsto> ''8080'']"
  let ?env2 = "[''PORT'' \<mapsto> ''8080'']"
  have same_port: "?env1 ''PORT'' = ?env2 ''PORT''"
    by simp
  have same_flag: "?env1 ''FLASK_ENV'' = ?env2 ''FLASK_ENV''"
    by simp
  have other: "?env1 ''HOME'' \<noteq> ?env2 ''HOME''"
    by simp
  from configuration_depends_on_two_variables [of ?env1 ?env2 4300
      "Inr () :: unit + unit" "''__main__''" 4300 "Inr () :: unit + unit" "''__main__''"
      4300 "Inr () :: unit + unit" "''__main__''", OF same_port same_flag]
  have same_run: "run_module 4300 (Inr () :: unit + unit) ''__main__'' ?env1
       = run_module 4300 (Inr () :: unit + unit) ''__main__'' ?env2"
    by (rule conjunct1)
  have "port 4300 ?env2 = (Inr 8080 :: unit exn + int)"
    by (simp add: port_set_value int_of_str_8080)
  moreover have "debug_mode ?env2 = False"
    by (simp add: debug_mode_value)
  ultimately have "snd (run_module 4300 (Inr () :: unit + unit) ''__main__'' ?env2)
       = Serving () ''0.0.0.0'' 8080 False"
    by (simp add: run_module_serving)
  with same_port same_flag other same_run show ?thesis by blast
qed

text \<open>
  C10. The port is not range-checked. When \<open>PORT\<close> is set to a string \<open>p\<close>, line 11
  succeeds with \<open>n\<close> exactly when \<open>int(p)\<close> is \<open>n\<close>, whatever integer \<open>n\<close> is
  (negative, or above 65535), and \<open>n\<close> is then the port of the \<open>app.run\<close> call; line
  11 raises exactly when \<open>int\<close> rejects \<open>p\<close>.
\<close>

theorem port_not_range_checked:
  assumes "env ''PORT'' = Some p"
  shows "(port lim env = (Inr n :: 'e exn + int)) = (int_of_str lim p = Some n)
       \<and> (int_of_str lim p = Some n \<longrightarrow>
            run_module lim (Inr a :: 'e + 'app) ''__main__'' env
              = ([Create_app, Environ_get ''PORT'', Environ_get ''FLASK_ENV'',
                  App_run ''0.0.0.0'' n (debug_mode env)],
                 Serving a ''0.0.0.0'' n (debug_mode env)))
       \<and> (\<exists>e. port lim env = (Inl e :: 'e exn + int)) = (int_of_str lim p = None)"
proof -
  have resolved: "(port lim env = (Inr n :: 'e exn + int)) = (int_of_str lim p = Some n)"
    using assms by (simp add: port_set_value split: option.splits)
  have raised: "(\<exists>e. port lim env = (Inl e :: 'e exn + int)) = (int_of_str lim p = None)"
    using assms by (simp add: port_set_value split: option.splits)
  from resolved raised show ?thesis
    by (simp add: run_module_serving)
qed

theorem port_not_range_checked_witness:
  "[''PORT'' \<mapsto> ''-1''] ''PORT'' = Some ''-1''
   \<and> port 4300 [''PORT'' \<mapsto> ''-1''] = (Inr (- 1) :: unit exn + int)
   \<and> snd (run_module 4300 (Inr () :: unit + unit) ''__main__'' [''PORT'' \<mapsto> ''-1''])
       = Serving () ''0.0.0.0'' (- 1) False
   \<and> [''PORT'' \<mapsto> ''70000''] ''PORT'' = Some ''70000''
   \<and> port 4300 [''PORT'' \<mapsto> ''70000''] = (Inr 70000 :: unit exn + int)
   \<and> snd (run_module 4300 (Inr () :: unit + unit) ''__main__'' [''PORT'' \<mapsto> ''70000''])
       = Serving () ''0.0.0.0'' 70000 False
   \<and> [''PORT'' \<mapsto> ''80 80''] ''PORT'' = Some ''80 80''
   \<and> (\<exists>e. port 4300 [''PORT'' \<mapsto> ''80 80''] = (Inl e :: unit exn + int))"
proof -
  have set1: "[''PORT'' \<mapsto> ''-1''] ''PORT'' = Some ''-1''"
    by simp
  have set2: "[''PORT'' \<mapsto> ''70000''] ''PORT'' = Some ''70000''"
    by simp
  have set3: "[''PORT'' \<mapsto> ''80 80''] ''PORT'' = Some ''80 80''"
    by simp
  have dbg1: "debug_mode [''PORT'' \<mapsto> ''-1''] = False"
    by (simp add: debug_mode_value)
  have dbg2: "debug_mode [''PORT'' \<mapsto> ''70000''] = False"
    by (simp add: debug_mode_value)
  from port_not_range_checked [of "[''PORT'' \<mapsto> ''-1'']" "''-1''" 4300 "- 1" "()",
      where 'e = unit, OF set1]
  have negative: "port 4300 [''PORT'' \<mapsto> ''-1''] = (Inr (- 1) :: unit exn + int)
     \<and> snd (run_module 4300 (Inr () :: unit + unit) ''__main__'' [''PORT'' \<mapsto> ''-1''])
         = Serving () ''0.0.0.0'' (- 1) False"
    unfolding dbg1 by (simp add: int_of_str_minus_1)
  from port_not_range_checked [of "[''PORT'' \<mapsto> ''70000'']" "''70000''" 4300 70000 "()",
      where 'e = unit, OF set2]
  have large: "port 4300 [''PORT'' \<mapsto> ''70000''] = (Inr 70000 :: unit exn + int)
     \<and> snd (run_module 4300 (Inr () :: unit + unit) ''__main__'' [''PORT'' \<mapsto> ''70000''])
         = Serving () ''0.0.0.0'' 70000 False"
    unfolding dbg2 by (simp add: int_of_str_70000)
  from port_not_range_checked [of "[''PORT'' \<mapsto> ''80 80'']" "''80 80''" 4300 0 "()",
      where 'e = unit, OF set3]
  have rejected: "\<exists>e. port 4300 [''PORT'' \<mapsto> ''80 80''] = (Inl e :: unit exn + int)"
    by (simp add: int_of_str_two_words)
  from set1 negative set2 large set3 rejected show ?thesis by blast
qed

end
